theory Spec2Isabelle
  imports Main
begin

section \<open>The auction database\<close>

text \<open>
  The bidding and lifecycle engine of the repository lives in two PL/pgSQL functions,
  \<^verbatim>\<open>update_auction_status()\<close> and the \<^verbatim>\<open>AFTER INSERT\<close> trigger function
  \<^verbatim>\<open>handle_new_bid()\<close>, over the tables \<^verbatim>\<open>auctions\<close>, \<^verbatim>\<open>bids\<close> and
  \<^verbatim>\<open>notifications\<close>. The tables are modelled as they are declared:
  \<^item> uuids are natural numbers, \<^verbatim>\<open>timestamptz\<close> values are integers (a count of clock
    ticks), \<^verbatim>\<open>decimal(10,2)\<close> amounts are integers counting cents; a value is cast to
    \<^verbatim>\<open>NUMERIC(10,2)\<close> where the source stores it in a column or a variable of that type,
    and the cast fails with \<^verbatim>\<open>numeric field overflow\<close> from 100000000.00 on;
  \<^item> \<^verbatim>\<open>auctions\<close> has a primary key, so the table is a map from the id to the row;
  \<^item> \<^verbatim>\<open>bids\<close> and \<^verbatim>\<open>notifications\<close> are only ever appended to: they are lists in
    insertion order (their generated uuid is left out);
  \<^item> \<^verbatim>\<open>status\<close>, \<^verbatim>\<open>highest_bid\<close> and \<^verbatim>\<open>highest_bidder_id\<close> are nullable columns
    and are read as such: a comparison with \<^verbatim>\<open>NULL\<close> is not true, so an \<^verbatim>\<open>IF\<close> on it
    does not take its \<^verbatim>\<open>THEN\<close> branch and a \<^verbatim>\<open>WHERE\<close> clause does not select the row;
  \<^item> the foreign keys into \<^verbatim>\<open>profiles\<close> and \<^verbatim>\<open>auctions\<close> are outside the model.
\<close>

type_synonym uuid = nat
type_synonym timestamptz = int
type_synonym numeric = int

datatype auction_status = Draft | Active | Ended | Cancelled

datatype notification_type =
  NewBid | Outbid | AuctionEnded | BidAccepted | BidRejected | CounterOffer

record auction =
  seller_id :: uuid
  title :: string
  description :: string
  starting_price :: numeric
  bid_increment :: numeric
  start_time :: timestamptz
  end_time :: timestamptz
  status :: "auction_status option"
  highest_bid :: "numeric option"
  highest_bidder_id :: "uuid option"
  created_at :: timestamptz

record bid =
  auction_id :: uuid
  bidder_id :: uuid
  amount :: numeric
  bid_created_at :: timestamptz

record notification =
  user_id :: uuid
  notification_auction_id :: "uuid option"
  notification_type :: notification_type
  message :: string
  read :: bool
  notification_created_at :: timestamptz

record database =
  auctions :: "uuid \<rightharpoonup> auction"
  bids :: "bid list"
  notifications :: "notification list"

definition empty_database :: database where
  "empty_database = \<lparr>auctions = Map.empty, bids = [], notifications = []\<rparr>"

subsection \<open>SQL helpers\<close>

definition COALESCE :: "'a option \<Rightarrow> 'a \<Rightarrow> 'a" where
  "COALESCE v d = (case v of None \<Rightarrow> d | Some x \<Rightarrow> x)"

text \<open>The values of \<^verbatim>\<open>NUMERIC(10,2)\<close>, in cents: fewer than ten digits in all.\<close>

definition numeric_10_2 :: "numeric \<Rightarrow> bool" where
  "numeric_10_2 v = (\<bar>v\<bar> < 10000000000)"

text \<open>\<^verbatim>\<open>UPDATE auctions SET ... WHERE ...\<close>: every row that satisfies the condition is
  rewritten, every other row is kept.\<close>

definition sql_update ::
  "(auction \<Rightarrow> bool) \<Rightarrow> (auction \<Rightarrow> auction) \<Rightarrow> (uuid \<rightharpoonup> auction) \<Rightarrow> (uuid \<rightharpoonup> auction)" where
  "sql_update cond set_row tbl =
     (\<lambda>k. map_option (\<lambda>r. if cond r then set_row r else r) (tbl k))"

text \<open>The text of a \<^verbatim>\<open>decimal(10,2)\<close> value, as \<^verbatim>\<open>||\<close> renders it: the integer part,
  a point and two decimals.\<close>

definition digit_char :: "nat \<Rightarrow> char" where
  "digit_char n = ''0123456789'' ! (n mod 10)"

fun nat_text :: "nat \<Rightarrow> string" where
  "nat_text n = (if n < 10 then [digit_char n] else nat_text (n div 10) @ [digit_char n])"

declare nat_text.simps [simp del]

definition numeric_text :: "numeric \<Rightarrow> string" where
  "numeric_text c =
     (if c < 0 then ''-'' else '''') @ nat_text (nat \<bar>c\<bar> div 100) @ ''.'' @
     [digit_char (nat \<bar>c\<bar> div 10), digit_char (nat \<bar>c\<bar>)]"

section \<open>Status reconciliation: \<^verbatim>\<open>update_auction_status()\<close>\<close>

text \<open>The function of the later migration (the one in force): two \<^verbatim>\<open>UPDATE\<close> statements
  run one after the other, under one value of \<^verbatim>\<open>now()\<close>.\<close>

definition update_auction_status :: "database \<Rightarrow> timestamptz \<Rightarrow> database" where
  "update_auction_status db now =
     (let db1 = db\<lparr>auctions :=
            sql_update (\<lambda>a. status a = Some Draft \<and> start_time a \<le> now \<and> end_time a > now)
              (\<lambda>a. a\<lparr>status := Some Active\<rparr>) (auctions db)\<rparr>;
          db2 = db1\<lparr>auctions :=
            sql_update (\<lambda>a. (status a = Some Draft \<or> status a = Some Active) \<and> end_time a \<le> now)
              (\<lambda>a. a\<lparr>status := Some Ended\<rparr>) (auctions db1)\<rparr>
      in db2)"

text \<open>The function of the first migration, which the later one replaces.\<close>

definition update_auction_status_v1 :: "database \<Rightarrow> timestamptz \<Rightarrow> database" where
  "update_auction_status_v1 db now =
     (let db1 = db\<lparr>auctions :=
            sql_update (\<lambda>a. status a = Some Draft \<and> start_time a \<le> now)
              (\<lambda>a. a\<lparr>status := Some Active\<rparr>) (auctions db)\<rparr>;
          db2 = db1\<lparr>auctions :=
            sql_update (\<lambda>a. status a = Some Active \<and> end_time a \<le> now)
              (\<lambda>a. a\<lparr>status := Some Ended\<rparr>) (auctions db1)\<rparr>
      in db2)"

section \<open>Bid placement: the trigger \<^verbatim>\<open>handle_new_bid()\<close>\<close>

text \<open>Each \<^verbatim>\<open>RAISE EXCEPTION\<close> of the trigger function is a value; the bound of
  \<^verbatim>\<open>Bid amount must be at least %\<close> is carried along.\<close>

datatype bid_exception =
  AuctionNotFound
  | AuctionNotActive
  | AuctionHasEnded
  | SellersCannotBid
  | NumericFieldOverflow
  | BidAmountTooLow numeric

definition new_bid_message :: "numeric \<Rightarrow> string \<Rightarrow> string" where
  "new_bid_message amt ttl =
     ''New bid of $'' @ numeric_text amt @ '' placed on your auction '' @
     [CHR 0x22] @ ttl @ [CHR 0x22]"

definition outbid_message :: "string \<Rightarrow> numeric \<Rightarrow> string" where
  "outbid_message ttl amt =
     ''You have been outbid on '' @ [CHR 0x22] @ ttl @ [CHR 0x22] @
     ''. New highest bid: $'' @ numeric_text amt"

text \<open>
  The trigger function of the later migration. \<^verbatim>\<open>new\<close> is the inserted row; the
  result is the exception raised, or the database after the function's writes.

  The function takes no lock on the auction it reads. Its \<^verbatim>\<open>SELECT ... INTO\<close> reads the
  row as \<open>snapshot\<close>, the state last committed when the statement starts, has it; its
  checks and the two notifications use the record read; its \<^verbatim>\<open>UPDATE\<close> rewrites the row
  as \<open>db\<close>, the state its writes land on, has it (under the default isolation level the
  \<^verbatim>\<open>UPDATE\<close> waits for a transaction that is writing the row and, once that one has
  committed, rewrites the committed row). When no other transaction commits in between,
  the two states are one: that is \<open>handle_new_bid\<close>.
\<close>

text \<open>The statements after the checks: the \<^verbatim>\<open>UPDATE\<close> of the auction and the one or two
  \<^verbatim>\<open>INSERT\<close>s into \<^verbatim>\<open>notifications\<close>.\<close>

definition bid_writes :: "auction \<Rightarrow> database \<Rightarrow> timestamptz \<Rightarrow> bid \<Rightarrow> database" where
  "bid_writes auction_record db now new =
     db\<lparr>auctions := (auctions db)(auction_id new :=
          map_option
            (\<lambda>r. r\<lparr>highest_bid := Some (amount new),
                    highest_bidder_id := Some (bidder_id new)\<rparr>)
            (auctions db (auction_id new))),
        notifications := notifications db @
          [\<lparr>user_id = seller_id auction_record,
            notification_auction_id = Some (auction_id new),
            notification_type = NewBid,
            message = new_bid_message (amount new) (title auction_record),
            read = False,
            notification_created_at = now\<rparr>] @
          (case highest_bidder_id auction_record of
             None \<Rightarrow> []
           | Some previous \<Rightarrow>
               if previous \<noteq> bidder_id new
               then [\<lparr>user_id = previous,
                      notification_auction_id = Some (auction_id new),
                      notification_type = Outbid,
                      message = outbid_message (title auction_record) (amount new),
                      read = False,
                      notification_created_at = now\<rparr>]
               else [])\<rparr>"

definition handle_new_bid_seeing ::
  "database \<Rightarrow> database \<Rightarrow> timestamptz \<Rightarrow> bid \<Rightarrow> bid_exception + database" where
  "handle_new_bid_seeing snapshot db now new =
     (case auctions snapshot (auction_id new) of
        None \<Rightarrow> Inl AuctionNotFound
      | Some auction_record \<Rightarrow>
          if status auction_record \<noteq> None \<and> status auction_record \<noteq> Some Active
          then Inl AuctionNotActive
          else if end_time auction_record \<le> now then Inl AuctionHasEnded
          else if seller_id auction_record = bidder_id new then Inl SellersCannotBid
          else
            let current_highest_bid = COALESCE (highest_bid auction_record) 0
            in
              if \<not> numeric_10_2 current_highest_bid then Inl NumericFieldOverflow
              else
                let minimum_bid =
                  (if current_highest_bid = 0 then starting_price auction_record
                   else current_highest_bid + bid_increment auction_record)
                in
                  if \<not> numeric_10_2 minimum_bid then Inl NumericFieldOverflow
                  else if amount new < minimum_bid then Inl (BidAmountTooLow minimum_bid)
                  else Inr (bid_writes auction_record db now new))"

definition handle_new_bid :: "database \<Rightarrow> timestamptz \<Rightarrow> bid \<Rightarrow> bid_exception + database" where
  "handle_new_bid db now new = handle_new_bid_seeing db db now new"

text \<open>\<^verbatim>\<open>INSERT INTO bids\<close>, as \<^verbatim>\<open>handlePlaceBid\<close> issues it: the cast of the amount
  to the column's \<^verbatim>\<open>decimal(10,2)\<close>, the table's \<^verbatim>\<open>CHECK (amount > 0)\<close>, the row, then
  the \<^verbatim>\<open>AFTER INSERT\<close> trigger. An exception aborts the statement, and the database
  stays as it was before the insert. \<open>insert_bid_seeing\<close> is the insert whose trigger
  reads \<open>snapshot\<close>; \<open>insert_bid\<close> is the insert that runs alone.\<close>

datatype insert_error = AmountOutOfRange | CheckViolation | Raised bid_exception

definition insert_bid_seeing ::
  "database \<Rightarrow> database \<Rightarrow> timestamptz \<Rightarrow> uuid \<Rightarrow> uuid \<Rightarrow> numeric \<Rightarrow>
   (insert_error + bid) \<times> database" where
  "insert_bid_seeing snapshot db now aid uid amt =
     (let new = \<lparr>auction_id = aid, bidder_id = uid, amount = amt, bid_created_at = now\<rparr>
      in if \<not> numeric_10_2 amt then (Inl AmountOutOfRange, db)
         else if amt > 0
         then (case handle_new_bid_seeing snapshot (db\<lparr>bids := bids db @ [new]\<rparr>) now new of
                 Inl e \<Rightarrow> (Inl (Raised e), db)
               | Inr db' \<Rightarrow> (Inr new, db'))
         else (Inl CheckViolation, db))"

definition insert_bid ::
  "database \<Rightarrow> timestamptz \<Rightarrow> uuid \<Rightarrow> uuid \<Rightarrow> numeric \<Rightarrow> (insert_error + bid) \<times> database" where
  "insert_bid db now aid uid amt = insert_bid_seeing db db now aid uid amt"

section \<open>Auction creation and command sequences\<close>

text \<open>\<^verbatim>\<open>CreateAuctionModal.handleSubmit\<close> inserts a row with status \<^verbatim>\<open>draft\<close>; the
  table supplies the defaults (\<^verbatim>\<open>highest_bid\<close> 0, no highest bidder) and refuses a row
  that breaks the primary key, the range of a \<^verbatim>\<open>decimal(10,2)\<close> column or one of its
  \<^verbatim>\<open>CHECK\<close> constraints.\<close>

definition create_auction ::
  "database \<Rightarrow> timestamptz \<Rightarrow> uuid \<Rightarrow> uuid \<Rightarrow> string \<Rightarrow> string \<Rightarrow> numeric \<Rightarrow> numeric \<Rightarrow>
   timestamptz \<Rightarrow> timestamptz \<Rightarrow> database" where
  "create_auction db now new_id seller ttl descr price incr starts ends =
     (if auctions db new_id = None \<and> numeric_10_2 price \<and> numeric_10_2 incr \<and>
         price > 0 \<and> incr > 0 \<and> ends > starts
      then db\<lparr>auctions := (auctions db)(new_id \<mapsto>
             \<lparr>seller_id = seller, title = ttl, description = descr,
              starting_price = price, bid_increment = incr,
              start_time = starts, end_time = ends, status = Some Draft,
              highest_bid = Some 0, highest_bidder_id = None, created_at = now\<rparr>)\<rparr>
      else db)"

text \<open>What the application does to the database, each command stamped with the
  \<^verbatim>\<open>now()\<close> of its transaction. \<open>run\<close> is a serial history: every command commits
  before the next one starts.\<close>

datatype command =
  CreateAuction uuid uuid string string numeric numeric timestamptz timestamptz
  | UpdateAuctionStatus
  | PlaceBid uuid uuid numeric

fun step :: "database \<Rightarrow> timestamptz \<times> command \<Rightarrow> database" where
  "step db (now, CreateAuction new_id seller ttl descr price incr starts ends) =
     create_auction db now new_id seller ttl descr price incr starts ends"
| "step db (now, UpdateAuctionStatus) = update_auction_status db now"
| "step db (now, PlaceBid aid uid amt) = snd (insert_bid db now aid uid amt)"

fun run :: "database \<Rightarrow> (timestamptz \<times> command) list \<Rightarrow> database" where
  "run db [] = db"
| "run db (c # cs) = run (step db c) cs"

section \<open>Displayed phase\<close>

text \<open>The three flags of \<^verbatim>\<open>App.filteredAuctions\<close>.\<close>

definition isUpcoming :: "auction \<Rightarrow> timestamptz \<Rightarrow> bool" where
  "isUpcoming a now = (now < start_time a)"

definition isActive :: "auction \<Rightarrow> timestamptz \<Rightarrow> bool" where
  "isActive a now = (now \<ge> start_time a \<and> now < end_time a \<and> status a \<noteq> Some Ended)"

definition isEnded :: "auction \<Rightarrow> timestamptz \<Rightarrow> bool" where
  "isEnded a now = (now \<ge> end_time a \<or> status a = Some Ended)"

text \<open>The same three flags as \<^verbatim>\<open>AuctionRoom\<close> and \<^verbatim>\<open>AuctionCard\<close> compute them, with
  the strict \<^verbatim>\<open>isBefore\<close> and \<^verbatim>\<open>isAfter\<close> of date-fns.\<close>

definition isUpcoming_card :: "auction \<Rightarrow> timestamptz \<Rightarrow> bool" where
  "isUpcoming_card a now = (now < start_time a)"

definition isActive_card :: "auction \<Rightarrow> timestamptz \<Rightarrow> bool" where
  "isActive_card a now = (now > start_time a \<and> now < end_time a)"

definition isEnded_card :: "auction \<Rightarrow> timestamptz \<Rightarrow> bool" where
  "isEnded_card a now = (now > end_time a \<or> status a = Some Ended)"

section \<open>The specification's contracts\<close>

text \<open>The definitions of this section follow the words of the specification, not the
  code; the theorems compare them with the code.\<close>

definition spec_phase_Upcoming :: "auction \<Rightarrow> timestamptz \<Rightarrow> bool" where
  "spec_phase_Upcoming a now = (now < start_time a)"

definition spec_phase_Active :: "auction \<Rightarrow> timestamptz \<Rightarrow> bool" where
  "spec_phase_Active a now =
     (start_time a \<le> now \<and> now < end_time a \<and> status a \<noteq> Some Ended \<and> status a \<noteq> Some Cancelled)"

definition spec_phase_Ended :: "auction \<Rightarrow> timestamptz \<Rightarrow> bool" where
  "spec_phase_Ended a now = (now \<ge> end_time a \<or> status a = Some Ended \<or> status a = Some Cancelled)"

datatype reject_reason = NotFound | NotActive | SelfBid | BelowMinimum numeric

text \<open>\<open>Fault\<close> stands for a failure that is none of the four reasons.\<close>

datatype verdict = Accept | Reject reject_reason | Fault

text \<open>The ordered decision procedure of the bid validator, over the test that stands
  for \<open>phaseOf(auction, now) == Active\<close>.\<close>

definition spec_validate ::
  "(auction \<Rightarrow> timestamptz \<Rightarrow> bool) \<Rightarrow> auction option \<Rightarrow> timestamptz \<Rightarrow> uuid \<Rightarrow> numeric \<Rightarrow> verdict" where
  "spec_validate phase_is_Active auction now bidderId amt =
     (case auction of
        None \<Rightarrow> Reject NotFound
      | Some a \<Rightarrow>
          if \<not> phase_is_Active a now then Reject NotActive
          else if bidderId = seller_id a then Reject SelfBid
          else
            let highestBid = COALESCE (highest_bid a) 0;
                minimumBid = (if highestBid = 0 then starting_price a
                              else highestBid + bid_increment a)
            in if amt < minimumBid then Reject (BelowMinimum minimumBid) else Accept)"

text \<open>How the trigger's outcome reads in the specification's vocabulary: both
  \<^verbatim>\<open>Auction is not active\<close> and \<^verbatim>\<open>Auction has ended\<close> are \<open>NotActive\<close>, and a
  failed cast is a fault.\<close>

fun verdict_of :: "bid_exception + database \<Rightarrow> verdict" where
  "verdict_of (Inr db) = Accept"
| "verdict_of (Inl AuctionNotFound) = Reject NotFound"
| "verdict_of (Inl AuctionNotActive) = Reject NotActive"
| "verdict_of (Inl AuctionHasEnded) = Reject NotActive"
| "verdict_of (Inl SellersCannotBid) = Reject SelfBid"
| "verdict_of (Inl (BidAmountTooLow m)) = Reject (BelowMinimum m)"
| "verdict_of (Inl NumericFieldOverflow) = Fault"

text \<open>The test the trigger makes in place of the phase: the persisted status and the
  end time.\<close>

definition persisted_Active :: "auction \<Rightarrow> timestamptz \<Rightarrow> bool" where
  "persisted_Active a now = (status a = Some Active \<and> now < end_time a)"

section \<open>Analysis helpers and sample data\<close>

definition created_notifications :: "database \<Rightarrow> database \<Rightarrow> notification list" where
  "created_notifications db db' = drop (length (notifications db)) (notifications db')"

definition count_for :: "uuid \<Rightarrow> notification_type \<Rightarrow> notification list \<Rightarrow> nat" where
  "count_for u k ns = length (filter (\<lambda>n. user_id n = u \<and> notification_type n = k) ns)"

definition current_highest :: "auction \<Rightarrow> numeric" where
  "current_highest a = COALESCE (highest_bid a) 0"

definition minimum_bid_of :: "auction \<Rightarrow> numeric" where
  "minimum_bid_of a =
     (if COALESCE (highest_bid a) 0 = 0 then starting_price a
      else COALESCE (highest_bid a) 0 + bid_increment a)"

text \<open>The record read passes every check of the trigger.\<close>

definition passes_checks :: "auction \<Rightarrow> timestamptz \<Rightarrow> bid \<Rightarrow> bool" where
  "passes_checks a now new =
     ((status a = None \<or> status a = Some Active) \<and> now < end_time a \<and>
      seller_id a \<noteq> bidder_id new \<and>
      numeric_10_2 (COALESCE (highest_bid a) 0) \<and> numeric_10_2 (minimum_bid_of a) \<and>
      minimum_bid_of a \<le> amount new)"

text \<open>The \<^verbatim>\<open>CHECK\<close> constraints of the \<^verbatim>\<open>auctions\<close> table.\<close>

definition auctions_check :: "auction \<Rightarrow> bool" where
  "auctions_check a =
     (starting_price a > 0 \<and> bid_increment a > 0 \<and> end_time a > start_time a)"

text \<open>The row a successful \<^verbatim>\<open>create_auction\<close> stores.\<close>

definition is_new_row :: "auction \<Rightarrow> bool" where
  "is_new_row a =
     (status a = Some Draft \<and> highest_bid a = Some 0 \<and> highest_bidder_id a = None \<and>
      auctions_check a)"

text \<open>The four ways one command, run at \<open>now\<close>, leaves a stored row: untouched,
  activated or ended by \<^verbatim>\<open>update_auction_status()\<close>, or given a new leader by an
  accepted bid.\<close>

inductive row_transition :: "timestamptz \<Rightarrow> auction \<Rightarrow> auction \<Rightarrow> bool" for now where
  kept: "row_transition now a a"
| activated: "status a = Some Draft \<Longrightarrow> start_time a \<le> now \<Longrightarrow> now < end_time a \<Longrightarrow>
    row_transition now a (a\<lparr>status := Some Active\<rparr>)"
| ended: "status a = Some Draft \<or> status a = Some Active \<Longrightarrow> end_time a \<le> now \<Longrightarrow>
    row_transition now a (a\<lparr>status := Some Ended\<rparr>)"
| led: "status a = None \<or> status a = Some Active \<Longrightarrow> now < end_time a \<Longrightarrow> uid \<noteq> seller_id a \<Longrightarrow>
    minimum_bid_of a \<le> amt \<Longrightarrow>
    row_transition now a (a\<lparr>highest_bid := Some amt, highest_bidder_id := Some uid\<rparr>)"

text \<open>Sample data: a lamp offered by user 7 from 100 to 200 at 10.00, in steps of 5.00.\<close>

definition sample_auction :: auction where
  "sample_auction =
     \<lparr>seller_id = 7, title = ''Lamp'', description = ''A lamp'',
      starting_price = 1000, bid_increment = 500,
      start_time = 100, end_time = 200, status = Some Active,
      highest_bid = Some 0, highest_bidder_id = None, created_at = 50\<rparr>"

definition sample_database :: database where
  "sample_database = \<lparr>auctions = [1 \<mapsto> sample_auction], bids = [], notifications = []\<rparr>"

definition sample_bid :: bid where
  "sample_bid = \<lparr>auction_id = 1, bidder_id = 2, amount = 1000, bid_created_at = 150\<rparr>"

definition draft_auction :: auction where
  "draft_auction = sample_auction\<lparr>status := Some Draft\<rparr>"

definition draft_database :: database where
  "draft_database = \<lparr>auctions = [1 \<mapsto> draft_auction], bids = [], notifications = []\<rparr>"

definition cancelled_auction :: auction where
  "cancelled_auction = sample_auction\<lparr>status := Some Cancelled\<rparr>"

definition led_auction :: auction where
  "led_auction = sample_auction\<lparr>highest_bid := Some 1000, highest_bidder_id := Some 3\<rparr>"

definition led_database :: database where
  "led_database = \<lparr>auctions = [1 \<mapsto> led_auction], bids = [], notifications = []\<rparr>"

definition unset_auction :: auction where
  "unset_auction = sample_auction\<lparr>status := None\<rparr>"

definition unset_database :: database where
  "unset_database = \<lparr>auctions = [1 \<mapsto> unset_auction], bids = [], notifications = []\<rparr>"

text \<open>A listing and its bids: the lamp is created at 50 and reconciled at 60, before
  its start; it is reconciled again at 150, and three bids follow.\<close>

definition listing_commands :: "(timestamptz \<times> command) list" where
  "listing_commands =
     [(50, CreateAuction 1 7 ''Lamp'' ''A lamp'' 1000 500 100 200),
      (60, UpdateAuctionStatus)]"

definition sample_commands :: "(timestamptz \<times> command) list" where
  "sample_commands =
     listing_commands @
     [(150, UpdateAuctionStatus),
      (160, PlaceBid 1 2 1000),
      (170, PlaceBid 1 3 1200),
      (180, PlaceBid 1 3 1500)]"

text \<open>A vase offered at the highest price the column holds, 99999999.99, in steps of
  0.01: it is created at 50, reconciled at 150 and bought at its starting price at 160.\<close>

definition vase_commands :: "(timestamptz \<times> command) list" where
  "vase_commands =
     [(50, CreateAuction 2 7 ''Vase'' ''A vase'' 9999999999 1 100 200),
      (150, UpdateAuctionStatus),
      (160, PlaceBid 2 2 9999999999)]"

definition vase_bid :: bid where
  "vase_bid = \<lparr>auction_id = 2, bidder_id = 3, amount = 9999999999, bid_created_at = 170\<rparr>"

section \<open>Status reconciliation\<close>

lemma auctions_update_auction_status:
  "auctions (update_auction_status db now) k =
     map_option (\<lambda>a. if status a = Some Draft \<and> start_time a \<le> now \<and> now < end_time a
                       then a\<lparr>status := Some Active\<rparr>
                       else if (status a = Some Draft \<or> status a = Some Active) \<and> end_time a \<le> now
                       then a\<lparr>status := Some Ended\<rparr> else a) (auctions db k)"
  by (cases "auctions db k") (auto simp: update_auction_status_def sql_update_def Let_def)

lemma bids_update_auction_status [simp]:
  "bids (update_auction_status db now) = bids db"
  by (simp add: update_auction_status_def Let_def)

lemma notifications_update_auction_status [simp]:
  "notifications (update_auction_status db now) = notifications db"
  by (simp add: update_auction_status_def Let_def)

text \<open>
  Claim C7. For every table of auctions and every \<open>now\<close>, \<^verbatim>\<open>update_auction_status()\<close>
  keeps every row, sets a draft row with \<open>start_time \<le> now < end_time\<close> to active, sets a
  draft or active row with \<open>end_time \<le> now\<close> to ended, leaves the status of every other
  row as it is, and changes no column but the status.
\<close>

theorem update_auction_status_rows:
  assumes "auctions db k = Some a"
  shows "\<exists>a'. auctions (update_auction_status db now) k = Some a' \<and>
           (status a = Some Draft \<and> start_time a \<le> now \<and> now < end_time a \<longrightarrow>
              status a' = Some Active) \<and>
           ((status a = Some Draft \<or> status a = Some Active) \<and> end_time a \<le> now \<longrightarrow>
              status a' = Some Ended) \<and>
           (\<not> (status a = Some Draft \<and> start_time a \<le> now \<and> now < end_time a) \<and>
            \<not> ((status a = Some Draft \<or> status a = Some Active) \<and> end_time a \<le> now) \<longrightarrow>
              status a' = status a) \<and>
           a' = a\<lparr>status := status a'\<rparr>"
  using assms by (auto simp: auctions_update_auction_status)

theorem update_auction_status_rows_witness:
  "auctions draft_database 1 = Some draft_auction \<and>
   status draft_auction = Some Draft \<and>
   map_option status (auctions (update_auction_status draft_database 150) 1) = Some (Some Active) \<and>
   map_option status (auctions (update_auction_status draft_database 250) 1) = Some (Some Ended) \<and>
   map_option status (auctions (update_auction_status draft_database 50) 1) = Some (Some Draft)"
  using update_auction_status_rows [of draft_database 1 draft_auction 150]
    update_auction_status_rows [of draft_database 1 draft_auction 250]
    update_auction_status_rows [of draft_database 1 draft_auction 50]
  by (auto simp: draft_database_def draft_auction_def sample_auction_def)

text \<open>Under the table's \<^verbatim>\<open>CHECK (end_time > start_time)\<close> the function of the first
  migration computes the same table.\<close>

lemma update_auction_status_v1_eq:
  assumes "\<And>k a. auctions db k = Some a \<Longrightarrow> start_time a < end_time a"
  shows "update_auction_status_v1 db now = update_auction_status db now"
proof -
  have "auctions (update_auction_status_v1 db now) k = auctions (update_auction_status db now) k"
    for k
    using assms [of k]
    by (cases "auctions db k")
      (auto simp: update_auction_status_v1_def update_auction_status_def sql_update_def Let_def)
  then have "auctions (update_auction_status_v1 db now) = auctions (update_auction_status db now)"
    by (rule ext)
  then show ?thesis
    by (simp add: database.equality update_auction_status_v1_def update_auction_status_def
        Let_def)
qed

text \<open>
  Claim C8. \<^verbatim>\<open>update_auction_status()\<close> is idempotent: run twice under the same
  \<^verbatim>\<open>now()\<close>, it leaves exactly the database that one run leaves.
\<close>

theorem update_auction_status_idempotent:
  "update_auction_status (update_auction_status db now) now = update_auction_status db now"
proof -
  have "auctions (update_auction_status (update_auction_status db now) now) k =
        auctions (update_auction_status db now) k" for k
    by (cases "auctions db k") (auto simp: auctions_update_auction_status)
  then have "auctions (update_auction_status (update_auction_status db now) now) =
             auctions (update_auction_status db now)"
    by (rule ext)
  then show ?thesis
    by (simp add: database.equality)
qed

theorem update_auction_status_idempotent_witness:
  "update_auction_status (update_auction_status draft_database 150) 150 =
   update_auction_status draft_database 150"
  using update_auction_status_idempotent [of draft_database 150] by simp

section \<open>The displayed phase\<close>

text \<open>
  Claim C3, as the specification states it, fails on a cancelled auction inside its time
  window: \<^verbatim>\<open>isActive\<close> holds and \<^verbatim>\<open>isEnded\<close> does not, since the code tests the status
  against \<^verbatim>\<open>'ended'\<close> only.
\<close>

theorem phase_flags_cancelled_counterexample:
  "isActive cancelled_auction 150 \<and> \<not> spec_phase_Active cancelled_auction 150 \<and>
   \<not> isEnded cancelled_auction 150 \<and> spec_phase_Ended cancelled_auction 150"
  by (simp add: isActive_def isEnded_def spec_phase_Active_def spec_phase_Ended_def
      cancelled_auction_def sample_auction_def)

text \<open>
  Claim C3, amended. For every auction and every \<open>now\<close>: the auction is upcoming if and only
  if \<open>now < start_time\<close>; active if and only if \<open>start_time \<le> now < end_time\<close> and the
  persisted status is not ended; ended if and only if \<open>now \<ge> end_time\<close> or the persisted
  status is ended.
\<close>

theorem phase_flags:
  "(isUpcoming a now \<longleftrightarrow> now < start_time a) \<and>
   (isActive a now \<longleftrightarrow> start_time a \<le> now \<and> now < end_time a \<and> status a \<noteq> Some Ended) \<and>
   (isEnded a now \<longleftrightarrow> now \<ge> end_time a \<or> status a = Some Ended)"
  by (simp add: isUpcoming_def isActive_def isEnded_def)

theorem phase_flags_witness:
  "isUpcoming sample_auction 50 \<and> isActive sample_auction 150 \<and> isEnded sample_auction 250 \<and>
   \<not> isActive sample_auction 50 \<and> \<not> isActive sample_auction 200 \<and>
   \<not> isEnded sample_auction 150"
  using phase_flags [of sample_auction 50] phase_flags [of sample_auction 150]
    phase_flags [of sample_auction 250] phase_flags [of sample_auction 200]
  by (simp add: sample_auction_def)

text \<open>On every auction that is not cancelled the three flags are the three phases of the
  specification, as it words them.\<close>

lemma phase_flags_spec:
  assumes "status a \<noteq> Some Cancelled"
  shows "isUpcoming a now = spec_phase_Upcoming a now"
    and "isActive a now = spec_phase_Active a now"
    and "isEnded a now = spec_phase_Ended a now"
  using assms
  by (auto simp: isUpcoming_def isActive_def isEnded_def
      spec_phase_Upcoming_def spec_phase_Active_def spec_phase_Ended_def)

text \<open>The flags of the two components agree with those of \<^verbatim>\<open>App\<close> away from the two
  instants \<open>start_time\<close> and \<open>end_time\<close>, for an auction not stored as ended.\<close>

lemma phase_flags_card:
  assumes "now \<noteq> start_time a" "now \<noteq> end_time a" "status a \<noteq> Some Ended"
  shows "isUpcoming_card a now = isUpcoming a now"
    and "isActive_card a now = isActive a now"
    and "isEnded_card a now = isEnded a now"
  using assms
  by (auto simp: isUpcoming_card_def isActive_card_def isEnded_card_def
      isUpcoming_def isActive_def isEnded_def)

section \<open>Bid validation\<close>

text \<open>
  Claim C1, as the specification states it, fails in three states.
  \<^item> An auction that was listed and reconciled before its start receives a bid inside its
    time window: the stored status is still draft, the phase is active by the clock and
    the procedure of the specification accepts the bid, while the trigger reads the
    stored status and raises \<^verbatim>\<open>Auction is not active\<close>.
  \<^item> An auction whose highest bid is 99999999.99 receives a bid: the procedure of the
    specification rejects it as below the minimum of 100000000.00, while the trigger
    fails on the cast of that minimum to \<^verbatim>\<open>NUMERIC(10,2)\<close>.
  \<^item> An auction stored without a status receives a bid before its start: the procedure of
    the specification rejects it as not active, while the trigger's comparison with
    \<^verbatim>\<open>NULL\<close> is not true and the bid is accepted.
\<close>

theorem handle_new_bid_draft_counterexample:
  "map_option status (auctions (run empty_database listing_commands) 1) = Some (Some Draft) \<and>
   verdict_of (handle_new_bid (run empty_database listing_commands) 150 sample_bid) =
     Reject NotActive \<and>
   spec_validate spec_phase_Active
     (auctions (run empty_database listing_commands) (auction_id sample_bid)) 150
     (bidder_id sample_bid) (amount sample_bid) = Accept \<and>
   map_option highest_bid (auctions (run empty_database vase_commands) 2) =
     Some (Some 9999999999) \<and>
   verdict_of (handle_new_bid (run empty_database vase_commands) 170 vase_bid) = Fault \<and>
   spec_validate spec_phase_Active
     (auctions (run empty_database vase_commands) (auction_id vase_bid)) 170
     (bidder_id vase_bid) (amount vase_bid) = Reject (BelowMinimum 10000000000) \<and>
   verdict_of (handle_new_bid unset_database 50 sample_bid) = Accept \<and>
   spec_validate spec_phase_Active (auctions unset_database (auction_id sample_bid)) 50
     (bidder_id sample_bid) (amount sample_bid) = Reject NotActive"
  by (simp add: handle_new_bid_def handle_new_bid_seeing_def bid_writes_def insert_bid_def
      insert_bid_seeing_def spec_validate_def spec_phase_Active_def COALESCE_def
      numeric_10_2_def listing_commands_def vase_commands_def vase_bid_def
      create_auction_def update_auction_status_def sql_update_def Let_def
      empty_database_def sample_bid_def unset_database_def unset_auction_def
      sample_auction_def)

text \<open>The trigger's cast fails exactly when the bid has passed the three checks before
  it and the highest bid or the minimum bid is out of the range of
  \<^verbatim>\<open>NUMERIC(10,2)\<close>.\<close>

lemma handle_new_bid_overflow:
  "handle_new_bid db now new = Inl NumericFieldOverflow \<longleftrightarrow>
     (\<exists>a. auctions db (auction_id new) = Some a \<and>
        (status a = None \<or> status a = Some Active) \<and> now < end_time a \<and>
        seller_id a \<noteq> bidder_id new \<and>
        \<not> (numeric_10_2 (current_highest a) \<and> numeric_10_2 (minimum_bid_of a)))"
proof (cases "auctions db (auction_id new)")
  case None
  then show ?thesis
    by (simp add: handle_new_bid_def handle_new_bid_seeing_def bid_writes_def)
next
  case (Some a)
  then show ?thesis
    by (simp add: handle_new_bid_def handle_new_bid_seeing_def bid_writes_def current_highest_def
        minimum_bid_of_def Let_def not_le)
qed

text \<open>
  Claim C1, amended. For every database in which the auction, if it exists, has a status
  and has a highest bid and a minimum bid within \<^verbatim>\<open>NUMERIC(10,2)\<close> (below 100000000.00),
  and for every proposed bid, the trigger decides as the ordered procedure does, with the
  persisted status in place of the phase: not found if the auction does not exist; else
  not active if the persisted status is not active or \<open>end_time \<le> now\<close>; else self bid if
  the bidder is the seller; else below minimum, with the minimum bid, if the amount is
  less than the minimum bid (the starting price when the highest bid is 0, the highest bid
  plus the increment otherwise); else accepted.
\<close>

theorem handle_new_bid_decision:
  assumes "\<And>a. auctions db (auction_id new) = Some a \<Longrightarrow>
             status a \<noteq> None \<and> numeric_10_2 (current_highest a) \<and>
             numeric_10_2 (minimum_bid_of a)"
  shows "verdict_of (handle_new_bid db now new) =
         spec_validate persisted_Active (auctions db (auction_id new)) now (bidder_id new)
           (amount new)"
proof (cases "auctions db (auction_id new)")
  case None
  then show ?thesis
    by (simp add: handle_new_bid_def handle_new_bid_seeing_def bid_writes_def spec_validate_def)
next
  case (Some a)
  from assms [OF Some] have "status a \<noteq> None"
    and "numeric_10_2 (COALESCE (highest_bid a) 0)"
    and "numeric_10_2 (if COALESCE (highest_bid a) 0 = 0 then starting_price a
           else COALESCE (highest_bid a) 0 + bid_increment a)"
    by (simp_all add: current_highest_def minimum_bid_of_def)
  with Some show ?thesis
    by (simp add: handle_new_bid_def handle_new_bid_seeing_def bid_writes_def spec_validate_def
        persisted_Active_def Let_def)
qed

theorem handle_new_bid_decision_witness:
  "auctions sample_database (auction_id sample_bid) = Some sample_auction \<and>
   status sample_auction = Some Active \<and>
   numeric_10_2 (current_highest sample_auction) \<and>
   numeric_10_2 (minimum_bid_of sample_auction) \<and>
   verdict_of (handle_new_bid sample_database 150 sample_bid) = Accept \<and>
   verdict_of (handle_new_bid sample_database 150 (sample_bid\<lparr>amount := 500\<rparr>)) =
     Reject (BelowMinimum 1000) \<and>
   verdict_of (handle_new_bid led_database 150 (sample_bid\<lparr>amount := 1200\<rparr>)) =
     Reject (BelowMinimum 1500) \<and>
   verdict_of (handle_new_bid sample_database 150 (sample_bid\<lparr>bidder_id := 7\<rparr>)) =
     Reject SelfBid \<and>
   verdict_of (handle_new_bid sample_database 200 sample_bid) = Reject NotActive \<and>
   verdict_of (handle_new_bid sample_database 150 (sample_bid\<lparr>auction_id := 9\<rparr>)) =
     Reject NotFound"
  using handle_new_bid_decision [of sample_database sample_bid 150]
    handle_new_bid_decision [of sample_database "sample_bid\<lparr>amount := 500\<rparr>" 150]
    handle_new_bid_decision [of led_database "sample_bid\<lparr>amount := 1200\<rparr>" 150]
    handle_new_bid_decision [of sample_database "sample_bid\<lparr>bidder_id := 7\<rparr>" 150]
    handle_new_bid_decision [of sample_database sample_bid 200]
    handle_new_bid_decision [of sample_database "sample_bid\<lparr>auction_id := 9\<rparr>" 150]
  by (simp add: spec_validate_def persisted_Active_def COALESCE_def numeric_10_2_def
      current_highest_def minimum_bid_of_def sample_database_def
      led_database_def led_auction_def sample_auction_def sample_bid_def)

text \<open>The persisted status stands for the phase of the specification on a row whose
  status is in step with the clock: active only once started, draft only while not yet
  started or already over.\<close>

lemma persisted_Active_iff_spec_phase:
  assumes "status a \<noteq> None"
    and "status a = Some Active \<longrightarrow> start_time a \<le> now"
    and "status a = Some Draft \<longrightarrow> now < start_time a \<or> end_time a \<le> now"
  shows "persisted_Active a now = spec_phase_Active a now"
proof -
  from assms(1) obtain v where v: "status a = Some v"
    by auto
  with assms(2,3) show ?thesis
    by (cases v) (auto simp: persisted_Active_def spec_phase_Active_def)
qed

section \<open>Bid placement\<close>

lemma handle_new_bid_seeing_passes:
  assumes "auctions snapshot (auction_id new) = Some a" and "passes_checks a now new"
  shows "handle_new_bid_seeing snapshot db now new = Inr (bid_writes a db now new)"
  using assms
  by (simp add: handle_new_bid_seeing_def passes_checks_def minimum_bid_of_def Let_def
      not_less)

lemma handle_new_bid_seeing_fails:
  assumes "auctions snapshot (auction_id new) = Some a" and "\<not> passes_checks a now new"
  shows "isl (handle_new_bid_seeing snapshot db now new)"
proof (cases "status a \<noteq> None \<and> status a \<noteq> Some Active")
  case True
  with assms(1) show ?thesis
    by (simp add: handle_new_bid_seeing_def)
next
  case status: False
  show ?thesis
  proof (cases "end_time a \<le> now \<or> seller_id a = bidder_id new")
    case True
    with assms(1) status show ?thesis
      by (auto simp: handle_new_bid_seeing_def)
  next
    case False
    with assms(2) status
    have "\<not> (numeric_10_2 (COALESCE (highest_bid a) 0) \<and> numeric_10_2 (minimum_bid_of a) \<and>
              minimum_bid_of a \<le> amount new)"
      by (auto simp: passes_checks_def)
    with assms(1) status False show ?thesis
      by (auto simp: handle_new_bid_seeing_def minimum_bid_of_def Let_def)
  qed
qed

lemma handle_new_bid_seeing_accepted:
  assumes "handle_new_bid_seeing snapshot db now new = Inr db'"
  shows "\<exists>a. auctions snapshot (auction_id new) = Some a \<and> passes_checks a now new \<and>
           db' = bid_writes a db now new"
proof (cases "auctions snapshot (auction_id new)")
  case None
  with assms show ?thesis
    by (simp add: handle_new_bid_seeing_def)
next
  case (Some a)
  show ?thesis
  proof (cases "passes_checks a now new")
    case True
    from handle_new_bid_seeing_passes [OF Some True, of db] assms Some True show ?thesis
      by simp
  next
    case False
    from handle_new_bid_seeing_fails [OF Some False, of db] assms show ?thesis
      by simp
  qed
qed

lemma bids_bid_writes [simp]: "bids (bid_writes a db now new) = bids db"
  by (simp add: bid_writes_def)

text \<open>Run alone, the trigger rewrites the row it read.\<close>

lemma auctions_bid_writes:
  assumes "auctions db (auction_id new) = Some a"
  shows "auctions (bid_writes a db now new) =
         (auctions db)(auction_id new \<mapsto>
            a\<lparr>highest_bid := Some (amount new), highest_bidder_id := Some (bidder_id new)\<rparr>)"
  using assms by (simp add: bid_writes_def)

lemma notifications_bid_writes:
  assumes "seller_id a \<noteq> bidder_id new"
  shows "notifications (bid_writes a db now new) =
           notifications db @ created_notifications db (bid_writes a db now new)"
    and "count_for u k (created_notifications db (bid_writes a db now new)) =
            (if k = NewBid \<and> u = seller_id a then 1
             else if k = Outbid \<and> highest_bidder_id a = Some u \<and> u \<noteq> bidder_id new then 1
             else 0)"
    and "count_for (bidder_id new) k (created_notifications db (bid_writes a db now new)) = 0"
  using assms
  by (auto simp: bid_writes_def created_notifications_def count_for_def
      split: option.splits)

text \<open>An insert either fails and leaves the database as it was, or its trigger read a
  record that passes every check and the database is the one the trigger wrote.\<close>

lemma insert_bid_seeing_cases:
  fixes snapshot db now aid uid amt
  defines "new \<equiv> \<lparr>auction_id = aid, bidder_id = uid, amount = amt, bid_created_at = now\<rparr>"
  shows "(isl (fst (insert_bid_seeing snapshot db now aid uid amt)) \<and>
          snd (insert_bid_seeing snapshot db now aid uid amt) = db) \<or>
         (\<exists>a. auctions snapshot aid = Some a \<and> passes_checks a now new \<and>
            numeric_10_2 amt \<and> 0 < amt \<and>
            insert_bid_seeing snapshot db now aid uid amt =
              (Inr new, bid_writes a (db\<lparr>bids := bids db @ [new]\<rparr>) now new))"
proof (cases "numeric_10_2 amt \<and> 0 < amt")
  case False
  then show ?thesis
    by (auto simp: insert_bid_seeing_def Let_def)
next
  case True
  let ?db = "db\<lparr>bids := bids db @ [new]\<rparr>"
  show ?thesis
  proof (cases "handle_new_bid_seeing snapshot ?db now new")
    case (Inl e)
    with True show ?thesis
      by (simp add: insert_bid_seeing_def Let_def new_def)
  next
    case (Inr db')
    from handle_new_bid_seeing_accepted [OF Inr]
    obtain a where "auctions snapshot aid = Some a" "passes_checks a now new"
      "db' = bid_writes a ?db now new"
      by (auto simp: new_def)
    with True Inr show ?thesis
      by (simp add: insert_bid_seeing_def Let_def new_def)
  qed
qed

lemma insert_bid_accepted:
  assumes "insert_bid db now aid uid amt = (Inr new, db')"
  shows "\<exists>a. auctions db aid = Some a \<and> passes_checks a now new \<and>
           new = \<lparr>auction_id = aid, bidder_id = uid, amount = amt, bid_created_at = now\<rparr> \<and>
           db' = bid_writes a (db\<lparr>bids := bids db @ [new]\<rparr>) now new"
  using insert_bid_seeing_cases [of db db now aid uid amt] assms
  by (auto simp: insert_bid_def)

text \<open>An accepted bid is appended to the log of bids, which is otherwise left as it
  is.\<close>

lemma insert_bid_appends:
  assumes "insert_bid db now aid uid amt = (Inr new, db')"
  shows "bids db' = bids db @ [new]"
  using insert_bid_accepted [OF assms] by auto

text \<open>
  Claim C2. For every accepted bid on an auction, the notifications the insert creates
  are: exactly one of kind \<open>NewBid\<close>, for the seller; exactly one of kind \<open>Outbid\<close> for
  the previous highest bidder if and only if there is one and it is not the new bidder;
  no other notification of any kind for any user, and none at all for the new bidder.
\<close>

theorem accepted_bid_notifications:
  assumes "insert_bid db now aid uid amt = (Inr new, db')"
    and "auctions db aid = Some a"
  shows "notifications db' = notifications db @ created_notifications db db' \<and>
         (\<forall>u k. count_for u k (created_notifications db db') =
            (if k = NewBid \<and> u = seller_id a then 1
             else if k = Outbid \<and> highest_bidder_id a = Some u \<and> u \<noteq> uid then 1
             else 0)) \<and>
         (\<forall>k. count_for uid k (created_notifications db db') = 0)"
proof -
  let ?db = "db\<lparr>bids := bids db @ [new]\<rparr>"
  from insert_bid_accepted [OF assms(1)] assms(2)
  have p: "passes_checks a now new" and new: "bidder_id new = uid"
    and db': "db' = bid_writes a ?db now new"
    by auto
  from p have s: "seller_id a \<noteq> bidder_id new"
    by (simp add: passes_checks_def)
  have c: "created_notifications ?db db' = created_notifications db db'"
    by (simp add: created_notifications_def)
  note facts = notifications_bid_writes [OF s, where db = ?db and now = now, folded db']
  show ?thesis
  proof (intro conjI allI)
    show "notifications db' = notifications db @ created_notifications db db'"
      using facts(1) c by simp
    show "count_for u k (created_notifications db db') =
            (if k = NewBid \<and> u = seller_id a then 1
             else if k = Outbid \<and> highest_bidder_id a = Some u \<and> u \<noteq> uid then 1
             else 0)" for u k
      using facts(2) [of u k] c new by simp
    show "count_for uid k (created_notifications db db') = 0" for k
      using facts(3) [of k] c new by simp
  qed
qed

theorem accepted_bid_notifications_witness:
  "fst (insert_bid led_database 150 1 2 1500) =
     Inr \<lparr>auction_id = 1, bidder_id = 2, amount = 1500, bid_created_at = 150\<rparr> \<and>
   count_for 7 NewBid
     (created_notifications led_database (snd (insert_bid led_database 150 1 2 1500))) = 1 \<and>
   count_for 3 Outbid
     (created_notifications led_database (snd (insert_bid led_database 150 1 2 1500))) = 1 \<and>
   count_for 2 NewBid
     (created_notifications led_database (snd (insert_bid led_database 150 1 2 1500))) = 0 \<and>
   count_for 2 Outbid
     (created_notifications led_database (snd (insert_bid led_database 150 1 2 1500))) = 0 \<and>
   length (created_notifications led_database (snd (insert_bid led_database 150 1 2 1500))) = 2"
  using accepted_bid_notifications [of led_database 150 1 2 1500
      "\<lparr>auction_id = 1, bidder_id = 2, amount = 1500, bid_created_at = 150\<rparr>"
      "snd (insert_bid led_database 150 1 2 1500)" led_auction]
  by (simp add: insert_bid_def insert_bid_seeing_def handle_new_bid_seeing_def bid_writes_def
      numeric_10_2_def created_notifications_def count_for_def
      COALESCE_def Let_def led_database_def led_auction_def sample_auction_def)

text \<open>
  Claim C4. A bid submission that is rejected, for whatever reason, leaves the database as
  it was: no row is added to \<^verbatim>\<open>bids\<close>, no auction's highest bid or highest bidder
  changes, and no notification is created.
\<close>

theorem insert_bid_rejected:
  assumes "fst (insert_bid db now aid uid amt) = Inl e"
  shows "snd (insert_bid db now aid uid amt) = db \<and>
         bids (snd (insert_bid db now aid uid amt)) = bids db \<and>
         auctions (snd (insert_bid db now aid uid amt)) = auctions db \<and>
         notifications (snd (insert_bid db now aid uid amt)) = notifications db"
  using assms
  by (auto simp: insert_bid_def insert_bid_seeing_def Let_def split: sum.splits if_splits)

theorem insert_bid_rejected_witness:
  "insert_bid sample_database 150 9 2 1000 = (Inl (Raised AuctionNotFound), sample_database) \<and>
   insert_bid draft_database 150 1 2 1000 = (Inl (Raised AuctionNotActive), draft_database) \<and>
   insert_bid sample_database 250 1 2 1000 = (Inl (Raised AuctionHasEnded), sample_database) \<and>
   insert_bid sample_database 150 1 7 1000 = (Inl (Raised SellersCannotBid), sample_database) \<and>
   insert_bid sample_database 150 1 2 500 =
     (Inl (Raised (BidAmountTooLow 1000)), sample_database)"
  using insert_bid_rejected [of sample_database 150 9 2 1000 "Raised AuctionNotFound"]
    insert_bid_rejected [of draft_database 150 1 2 1000 "Raised AuctionNotActive"]
    insert_bid_rejected [of sample_database 250 1 2 1000 "Raised AuctionHasEnded"]
    insert_bid_rejected [of sample_database 150 1 7 1000 "Raised SellersCannotBid"]
    insert_bid_rejected [of sample_database 150 1 2 500 "Raised (BidAmountTooLow 1000)"]
  by (simp add: insert_bid_def insert_bid_seeing_def handle_new_bid_seeing_def
      numeric_10_2_def COALESCE_def Let_def sample_database_def
      draft_database_def draft_auction_def sample_auction_def)

section \<open>Command sequences\<close>

text \<open>Run alone, an insert either leaves the database as it was or gives the row of its
  auction a new highest bid and highest bidder.\<close>

lemma insert_bid_cases:
  "(snd (insert_bid db now aid uid amt) = db \<and> isl (fst (insert_bid db now aid uid amt))) \<or>
   (\<exists>a. auctions db aid = Some a \<and> (status a = None \<or> status a = Some Active) \<and>
          now < end_time a \<and> uid \<noteq> seller_id a \<and> minimum_bid_of a \<le> amt \<and>
          auctions (snd (insert_bid db now aid uid amt)) =
            (auctions db)(aid \<mapsto> a\<lparr>highest_bid := Some amt, highest_bidder_id := Some uid\<rparr>))"
proof -
  let ?new = "\<lparr>auction_id = aid, bidder_id = uid, amount = amt, bid_created_at = now\<rparr>"
  let ?db = "db\<lparr>bids := bids db @ [?new]\<rparr>"
  consider (rejected) "isl (fst (insert_bid db now aid uid amt))"
      "snd (insert_bid db now aid uid amt) = db"
    | (accepted) a where "auctions db aid = Some a" "passes_checks a now ?new"
        "insert_bid db now aid uid amt = (Inr ?new, bid_writes a ?db now ?new)"
    using insert_bid_seeing_cases [of db db now aid uid amt]
    by (auto simp: insert_bid_def)
  then show ?thesis
  proof cases
    case rejected
    then show ?thesis by simp
  next
    case accepted
    have "auctions ?db (auction_id ?new) = Some a"
      using accepted(1) by simp
    from auctions_bid_writes [OF this, of now] accepted show ?thesis
      by (auto simp: passes_checks_def)
  qed
qed

lemma step_transition:
  assumes "auctions db k = Some a"
  shows "\<exists>a'. auctions (step db (now, c)) k = Some a' \<and> row_transition now a a'"
proof (cases c)
  case (CreateAuction new_id seller ttl descr price incr starts ends)
  with assms show ?thesis
    by (auto simp: create_auction_def intro: row_transition.kept)
next
  case UpdateAuctionStatus
  with assms show ?thesis
    by (auto simp: auctions_update_auction_status intro: row_transition.intros)
next
  case (PlaceBid aid uid amt)
  let ?db' = "snd (insert_bid db now aid uid amt)"
  consider (rejected) "?db' = db"
    | (accepted) b where "auctions db aid = Some b" "status b = None \<or> status b = Some Active"
        "now < end_time b" "uid \<noteq> seller_id b" "minimum_bid_of b \<le> amt"
        "auctions ?db' = (auctions db)(aid \<mapsto>
           b\<lparr>highest_bid := Some amt, highest_bidder_id := Some uid\<rparr>)"
    using insert_bid_cases [of db now aid uid amt] by blast
  then show ?thesis
  proof cases
    case rejected
    with assms show ?thesis
      by (simp add: PlaceBid row_transition.kept)
  next
    case accepted
    show ?thesis
    proof (cases "k = aid")
      case True
      with assms accepted(1) have "b = a" by simp
      with accepted True show ?thesis
        by (simp add: PlaceBid row_transition.led)
    next
      case False
      with assms accepted(6) show ?thesis
        by (simp add: PlaceBid row_transition.kept)
    qed
  qed
qed

lemma step_new_row:
  assumes "auctions db k = None" and "auctions (step db (now, c)) k = Some a'"
  shows "is_new_row a'"
proof (cases c)
  case (CreateAuction new_id seller ttl descr price incr starts ends)
  with assms show ?thesis
    by (auto simp: create_auction_def is_new_row_def auctions_check_def split: if_splits)
next
  case UpdateAuctionStatus
  with assms show ?thesis
    by (simp add: auctions_update_auction_status)
next
  case (PlaceBid aid uid amt)
  let ?db' = "snd (insert_bid db now aid uid amt)"
  consider (rejected) "?db' = db"
    | (accepted) b where "auctions db aid = Some b"
        "auctions ?db' = (auctions db)(aid \<mapsto>
           b\<lparr>highest_bid := Some amt, highest_bidder_id := Some uid\<rparr>)"
    using insert_bid_cases [of db now aid uid amt] by blast
  then show ?thesis
  proof cases
    case rejected
    with assms show ?thesis
      by (simp add: PlaceBid)
  next
    case accepted
    with assms have False
      by (cases "k = aid") (simp_all add: PlaceBid)
    then show ?thesis ..
  qed
qed

text \<open>A property of one stored row that every transition keeps holds of that row after
  any sequence of commands.\<close>

lemma run_transitions:
  assumes "\<And>t b b'. P b \<Longrightarrow> row_transition t b b' \<Longrightarrow> P b'"
    and "auctions db k = Some a" and "P a"
  shows "\<exists>a'. auctions (run db cs) k = Some a' \<and> P a'"
  using assms(2,3)
proof (induction cs arbitrary: db a)
  case Nil
  then show ?case by simp
next
  case (Cons c cs)
  obtain t x where c: "c = (t, x)" by (cases c)
  from step_transition [OF Cons.prems(1), of t x]
  obtain b where b: "auctions (step db c) k = Some b" "row_transition t a b"
    unfolding c by blast
  from assms(1) [OF Cons.prems(2) b(2)] have "P b" .
  from Cons.IH [OF b(1) this] show ?case by simp
qed

text \<open>A property that new rows have, and that every transition at a time in \<open>T\<close> keeps,
  holds of every row after a sequence of commands stamped with times in \<open>T\<close>.\<close>

lemma run_invariant:
  assumes new: "\<And>a. is_new_row a \<Longrightarrow> P a"
    and tr: "\<And>t b b'. t \<in> T \<Longrightarrow> P b \<Longrightarrow> row_transition t b b' \<Longrightarrow> P b'"
    and "fst ` set cs \<subseteq> T"
    and "\<And>k a. auctions db k = Some a \<Longrightarrow> P a"
    and "auctions (run db cs) k = Some a'"
  shows "P a'"
  using assms(3-5)
proof (induction cs arbitrary: db)
  case Nil
  then show ?case by simp
next
  case (Cons c cs)
  obtain t x where c: "c = (t, x)" by (cases c)
  with Cons.prems(1) have t: "t \<in> T" and cs: "fst ` set cs \<subseteq> T"
    by simp_all
  have "P b" if b: "auctions (step db c) j = Some b" for j b
  proof (cases "auctions db j")
    case None
    from step_new_row [OF None b [unfolded c]] show ?thesis
      by (rule new)
  next
    case (Some a)
    from step_transition [OF Some, of t x] b
    have "row_transition t a b"
      unfolding c by auto
    from tr [OF t Cons.prems(2) [OF Some] this] show ?thesis .
  qed
  from Cons.IH [OF cs this] Cons.prems(3) show ?case
    by simp
qed

section \<open>Invariants of bidding\<close>

text \<open>
  Claim C9. Status transitions are monotonic: under any sequence of commands (status
  reconciliations, bid submissions, auction creations), run at any times, an auction whose
  status is ended or cancelled keeps that status, and so never goes back to draft or
  active.
\<close>

theorem terminal_status_is_final:
  assumes "auctions db k = Some a" and "status a = Some Ended \<or> status a = Some Cancelled"
  shows "\<exists>a'. auctions (run db cs) k = Some a' \<and> status a' = status a \<and>
           status a' \<noteq> Some Draft \<and> status a' \<noteq> Some Active"
proof -
  have "\<exists>a'. auctions (run db cs) k = Some a' \<and> a' = a"
  proof (rule run_transitions [where P = "\<lambda>b. b = a"])
    show "b' = a" if "b = a" "row_transition t b b'" for t b b'
      using that(2) that(1) assms(2) by cases auto
    show "auctions db k = Some a" by fact
    show "a = a" ..
  qed
  with assms(2) show ?thesis
    by auto
qed

theorem terminal_status_is_final_witness:
  "map_option status (auctions (run sample_database [(250, UpdateAuctionStatus)]) 1) =
     Some (Some Ended) \<and>
   map_option status (auctions (run sample_database
      [(250, UpdateAuctionStatus), (120, UpdateAuctionStatus), (130, PlaceBid 1 2 1000),
       (140, UpdateAuctionStatus)]) 1) = Some (Some Ended)"
  using terminal_status_is_final [of "run sample_database [(250, UpdateAuctionStatus)]" 1
      "sample_auction\<lparr>status := Some Ended\<rparr>"
      "[(120, UpdateAuctionStatus), (130, PlaceBid 1 2 1000), (140, UpdateAuctionStatus)]"]
  by (simp add: update_auction_status_def sql_update_def insert_bid_def insert_bid_seeing_def
      handle_new_bid_seeing_def numeric_10_2_def Let_def sample_database_def
      sample_auction_def)

lemma handle_new_bid_not_active:
  assumes "auctions db (auction_id new) = Some a" and "status a \<noteq> None"
    and "\<not> persisted_Active a now"
  shows "verdict_of (handle_new_bid db now new) = Reject NotActive"
  using assms
  by (cases "status a = Some Active")
    (simp_all add: handle_new_bid_def handle_new_bid_seeing_def persisted_Active_def)

lemma insert_bid_not_active:
  assumes "auctions db aid = Some a" and "status a \<noteq> None"
    and "\<not> persisted_Active a now"
  shows "isl (fst (insert_bid db now aid uid amt)) \<and> snd (insert_bid db now aid uid amt) = db"
  using insert_bid_cases [of db now aid uid amt] assms
  by (auto simp: persisted_Active_def)

text \<open>
  Claim C5. In every state the commands of the application reach from the empty database,
  a bid submitted at a time \<open>now\<close> not earlier than the commands before it is rejected as
  not active whenever the phase of the auction at \<open>now\<close> is not active, that is when its
  start time is in the future, its end time has passed, or its status is ended or
  cancelled; the database is left as it was.
\<close>

theorem no_bid_outside_active_phase:
  assumes "\<forall>(t, c) \<in> set cs. t \<le> now"
    and "auctions (run empty_database cs) aid = Some a"
    and "\<not> spec_phase_Active a now"
  shows "verdict_of (handle_new_bid (run empty_database cs) now
           \<lparr>auction_id = aid, bidder_id = uid, amount = amt, bid_created_at = now\<rparr>) =
           Reject NotActive \<and>
         isl (fst (insert_bid (run empty_database cs) now aid uid amt)) \<and>
         snd (insert_bid (run empty_database cs) now aid uid amt) = run empty_database cs"
proof -
  let ?P = "\<lambda>b. status b \<noteq> None \<and> (status b = Some Active \<longrightarrow> start_time b \<le> now)"
  have "?P a"
  proof (rule run_invariant [where P = ?P and T = "{t. t \<le> now}"])
    show "?P b" if "is_new_row b" for b
      using that by (simp add: is_new_row_def)
    show "?P b'" if "t \<in> {t. t \<le> now}" "?P b" "row_transition t b b'" for t b b'
      using that(3) that(1,2) by cases auto
    show "fst ` set cs \<subseteq> {t. t \<le> now}"
      using assms(1) by auto
    show "?P b" if "auctions empty_database j = Some b" for j b
      using that by (simp add: empty_database_def)
    show "auctions (run empty_database cs) aid = Some a" by fact
  qed
  with assms(3) have s: "status a \<noteq> None" and n: "\<not> persisted_Active a now"
    by (auto simp: persisted_Active_def spec_phase_Active_def)
  from handle_new_bid_not_active [of "run empty_database cs" _ a now, OF _ s n]
    insert_bid_not_active [OF assms(2) s n] assms(2)
  show ?thesis
    by simp
qed

theorem no_bid_outside_active_phase_witness:
  "map_option status (auctions (run empty_database listing_commands) 1) = Some (Some Draft) \<and>
   \<not> spec_phase_Active (the (auctions (run empty_database listing_commands) 1)) 70 \<and>
   verdict_of (handle_new_bid (run empty_database listing_commands) 70
     \<lparr>auction_id = 1, bidder_id = 2, amount = 1000, bid_created_at = 70\<rparr>) = Reject NotActive \<and>
   snd (insert_bid (run empty_database listing_commands) 70 1 2 1000) =
     run empty_database listing_commands"
  using no_bid_outside_active_phase [of listing_commands 70 1
      "the (auctions (run empty_database listing_commands) 1)" 2 1000]
  by (simp add: listing_commands_def create_auction_def update_auction_status_def
      sql_update_def numeric_10_2_def Let_def empty_database_def spec_phase_Active_def)

text \<open>
  Claim C6. For every auction and every amount, a bid whose bidder is the auction's seller
  is rejected (as a self bid when the stored status is active and the end time has not
  passed); so in every state the commands reach from the empty database, the highest
  bidder of an auction is never its seller.
\<close>

theorem seller_never_leads:
  "(auctions db aid = Some a \<longrightarrow>
      isl (fst (insert_bid db now aid (seller_id a) amt)) \<and>
      snd (insert_bid db now aid (seller_id a) amt) = db \<and>
      (persisted_Active a now \<longrightarrow>
         verdict_of (handle_new_bid db now
           \<lparr>auction_id = aid, bidder_id = seller_id a, amount = amt, bid_created_at = now\<rparr>) =
         Reject SelfBid)) \<and>
   (auctions (run empty_database cs) k = Some a' \<longrightarrow>
      highest_bidder_id a' \<noteq> Some (seller_id a'))"
proof (intro conjI impI)
  assume a: "auctions db aid = Some a"
  from insert_bid_cases [of db now aid "seller_id a" amt] a
  show "isl (fst (insert_bid db now aid (seller_id a) amt))"
    and "snd (insert_bid db now aid (seller_id a) amt) = db"
    by auto
  assume "persisted_Active a now"
  with a show "verdict_of (handle_new_bid db now
           \<lparr>auction_id = aid, bidder_id = seller_id a, amount = amt, bid_created_at = now\<rparr>) =
         Reject SelfBid"
    by (simp add: handle_new_bid_def handle_new_bid_seeing_def persisted_Active_def)
next
  let ?P = "\<lambda>b. highest_bidder_id b \<noteq> Some (seller_id b)"
  assume r: "auctions (run empty_database cs) k = Some a'"
  show "?P a'"
  proof (rule run_invariant [where P = ?P and T = UNIV])
    show "?P b" if "is_new_row b" for b
      using that by (simp add: is_new_row_def)
    show "?P b'" if "?P b" "row_transition t b b'" for t b b'
      using that(2) that(1) by cases auto
    show "fst ` set cs \<subseteq> UNIV" by simp
    show "?P b" if "auctions empty_database j = Some b" for j b
      using that by (simp add: empty_database_def)
    show "auctions (run empty_database cs) k = Some a'" by fact
  qed
qed

theorem seller_never_leads_witness:
  "auctions sample_database 1 = Some sample_auction \<and> persisted_Active sample_auction 150 \<and>
   insert_bid sample_database 150 1 7 99999 =
     (Inl (Raised SellersCannotBid), sample_database) \<and>
   map_option seller_id (auctions (run empty_database sample_commands) 1) = Some 7 \<and>
   map_option highest_bidder_id (auctions (run empty_database sample_commands) 1) =
     Some (Some 3)"
  using seller_never_leads [of sample_database 1 sample_auction 150 99999 sample_commands 1
      "the (auctions (run empty_database sample_commands) 1)"]
  by (simp add: sample_commands_def listing_commands_def create_auction_def
      update_auction_status_def sql_update_def
      insert_bid_def insert_bid_seeing_def handle_new_bid_seeing_def bid_writes_def
      numeric_10_2_def COALESCE_def persisted_Active_def
      Let_def empty_database_def sample_database_def sample_auction_def)

section \<open>The highest bid\<close>

lemma row_transition_highest:
  assumes "row_transition t b b'" and "auctions_check b"
  shows "auctions_check b' \<and> current_highest b \<le> current_highest b'"
  using assms
proof cases
  case (led uid amt)
  with assms(2) have "current_highest b < amt"
    by (auto simp: minimum_bid_of_def current_highest_def auctions_check_def split: if_splits)
  with led assms(2) show ?thesis
    by (simp add: current_highest_def COALESCE_def auctions_check_def)
qed (simp_all add: auctions_check_def current_highest_def)

text \<open>In a serial history, where every bid is validated against the state the bid before
  it committed, the highest bid of a row that satisfies the table's \<^verbatim>\<open>CHECK\<close>
  constraints never decreases.\<close>

lemma serial_highest_bid_non_decreasing:
  assumes "auctions db k = Some a" and "auctions_check a"
  shows "\<exists>a'. auctions (run db cs) k = Some a' \<and> current_highest a \<le> current_highest a'"
proof -
  let ?P = "\<lambda>b. auctions_check b \<and> current_highest a \<le> current_highest b"
  have "\<exists>a'. auctions (run db cs) k = Some a' \<and> ?P a'"
  proof (rule run_transitions [where P = ?P])
    show "?P b'" if "?P b" "row_transition t b b'" for t b b'
      using row_transition_highest [OF that(2)] that(1) by auto
    show "auctions db k = Some a" by fact
    show "?P a" using assms(2) by simp
  qed
  then show ?thesis
    by auto
qed

text \<open>
  Claim C10 fails on the code when two bids are submitted at once. The trigger reads the
  auction without a lock and writes \<^verbatim>\<open>highest_bid = NEW.amount\<close> whatever the row
  then holds. On the lamp, led by user 3 at 10.00 with steps of 5.00, user 2 bids 20.00 and
  user 4 bids 15.00; both triggers read the row before either transaction commits, so both
  bids pass the check against the minimum of 15.00. The first commit stores 20.00, the
  second stores 15.00 over it: both bids are accepted and the highest bid decreases.
\<close>

theorem concurrent_bids_lower_highest_bid:
  "fst (insert_bid led_database 150 1 2 2000) =
     Inr \<lparr>auction_id = 1, bidder_id = 2, amount = 2000, bid_created_at = 150\<rparr> \<and>
   map_option current_highest (auctions (snd (insert_bid led_database 150 1 2 2000)) 1) =
     Some 2000 \<and>
   fst (insert_bid_seeing led_database (snd (insert_bid led_database 150 1 2 2000))
          151 1 4 1500) =
     Inr \<lparr>auction_id = 1, bidder_id = 4, amount = 1500, bid_created_at = 151\<rparr> \<and>
   map_option current_highest
     (auctions (snd (insert_bid_seeing led_database (snd (insert_bid led_database 150 1 2 2000))
        151 1 4 1500)) 1) = Some 1500"
  by (simp add: insert_bid_def insert_bid_seeing_def handle_new_bid_seeing_def bid_writes_def
      numeric_10_2_def current_highest_def COALESCE_def Let_def led_database_def
      led_auction_def sample_auction_def)

end
